theory Spec2Isabelle
  imports Main "HOL-Library.Sublist"
begin

section \<open>Python values\<close>

text \<open>
  The two modules \<^verbatim>\<open>discord_webhook.py\<close> and \<^verbatim>\<open>telegram_symphony.py\<close> each define a class
  \<^verbatim>\<open>Tools\<close>. Python's \<^verbatim>\<open>str\<close> is modelled by \<^typ>\<open>string\<close>; one \<^typ>\<open>char\<close> stands
  for one element of the \<^verbatim>\<open>str\<close>, which is what \<^verbatim>\<open>len\<close> and slicing count.

  \<^typ>\<open>'a + 'b\<close> is used for results: \<open>Inl e\<close> is "raised \<open>e\<close>", \<open>Inr v\<close> is "returned \<open>v\<close>".
  The exceptions of the model are the instances of Python's \<^verbatim>\<open>Exception\<close>, the class that the
  handlers of the source name. Signals of the interpreter that are not instances of
  \<^verbatim>\<open>Exception\<close> (keyboard interrupt, interpreter exit, task cancellation) are raised by none of
  the modelled operations.
\<close>

datatype py_exc =
    ClientError string       \<comment> \<open>\<^verbatim>\<open>aiohttp.ClientError\<close> and its subclasses\<close>
  | RuntimeError string
  | ValueError string
  | ValidationError "py_exc list"  \<comment> \<open>pydantic's error, collecting the validators' errors\<close>
  | AttributeError string
  | OtherException string    \<comment> \<open>any other instance of \<^verbatim>\<open>Exception\<close>\<close>

fun isinstance_ClientError :: "py_exc \<Rightarrow> bool" where
  "isinstance_ClientError (ClientError _) = True"
| "isinstance_ClientError _ = False"

text \<open>
  A parsed JSON document, as \<^verbatim>\<open>response.json()\<close> returns it. A finite float is the pair of
  a mantissa and a binary exponent; the non-finite ones are one constructor. \<open>JDict\<close> holds
  the items of the parsed dict, every key once.
\<close>

datatype json =
    JNull
  | JBool bool
  | JInt int
  | JFloat int int
  | JNonFinite
  | JStr string
  | JList "json list"
  | JDict "(string \<times> json) list"

text \<open>Python's truth value of a parsed JSON document.\<close>

fun truthy :: "json \<Rightarrow> bool" where
  "truthy JNull = False"
| "truthy (JBool b) = b"
| "truthy (JInt i) = (i \<noteq> 0)"
| "truthy (JFloat m e) = (m \<noteq> 0)"
| "truthy JNonFinite = True"
| "truthy (JStr s) = (s \<noteq> [])"
| "truthy (JList xs) = (xs \<noteq> [])"
| "truthy (JDict kvs) = (kvs \<noteq> [])"

text \<open>
  \<^verbatim>\<open>d.get(key, default)\<close>: only a dict has the method; on any other value the attribute
  lookup raises.
\<close>

fun dict_get :: "json \<Rightarrow> string \<Rightarrow> json \<Rightarrow> py_exc + json" where
  "dict_get (JDict kvs) k d = Inr (case map_of kvs k of None \<Rightarrow> d | Some v \<Rightarrow> v)"
| "dict_get _ k d = Inl (AttributeError ''object has no attribute 'get' '')"

section \<open>The world outside the tool\<close>

text \<open>
  An \<^verbatim>\<open>aiohttp.ClientSession\<close> is an object shared between the tool and its caller, so the
  sessions live in a store and the tool holds a reference (an index of the store).
  \<open>close_calls\<close> counts the calls of \<^verbatim>\<open>close()\<close> on the session.
\<close>

record session_obj =
  closed :: bool
  close_calls :: nat

datatype level = DEBUG | INFO | WARNING | ERROR

datatype fmt_arg = Str string | Num int | Json json | Exc py_exc

text \<open>
  A call of the \<^verbatim>\<open>logging\<close> module: the level, the text of the message with its
  placeholders, and the interpolated values in order. \<^verbatim>\<open>logging.exception\<close> is kept apart
  (it is \<^verbatim>\<open>logging.error\<close> with the stack trace).
\<close>

datatype log_record =
    Log level string "fmt_arg list"
  | LogException string "fmt_arg list"

type_synonym payload = "(string \<times> string) list"

record world =
  heap :: "session_obj list"
  requests :: "(nat \<times> string \<times> payload) list"  \<comment> \<open>the calls of \<^verbatim>\<open>session.post\<close>, in order\<close>
  logged :: "log_record list"

definition logging :: "log_record \<Rightarrow> world \<Rightarrow> world" where
  "logging r w = w\<lparr>logged := logged w @ [r]\<rparr>"

text \<open>\<^verbatim>\<open>aiohttp.ClientSession()\<close>: a new, open session at a fresh reference.\<close>

definition ClientSession :: "world \<Rightarrow> nat \<times> world" where
  "ClientSession w =
     (length (heap w), w\<lparr>heap := heap w @ [\<lparr>closed = False, close_calls = 0\<rparr>]\<rparr>)"

text \<open>\<^verbatim>\<open>session.close()\<close>\<close>

definition session_close :: "nat \<Rightarrow> world \<Rightarrow> world" where
  "session_close s w =
     w\<lparr>heap := (heap w)[s := (heap w ! s)\<lparr>closed := True,
                                         close_calls := Suc (close_calls (heap w ! s))\<rparr>]\<rparr>"

section \<open>The tool: session management\<close>

text \<open>
  The instance attributes of \<^verbatim>\<open>Tools\<close>. The methods \<^verbatim>\<open>_ensure_session\<close>, \<^verbatim>\<open>close\<close>,
  \<^verbatim>\<open>__aenter__\<close> and \<^verbatim>\<open>__aexit__\<close> have the same text in both modules; they are modelled once,
  for any type of \<open>valves\<close>.
\<close>

record 'v tools =
  valves :: 'v
  session :: "nat option"
  session_externally_managed :: bool

text \<open>\<^verbatim>\<open>self.session is None or self.session.closed\<close>\<close>

definition session_unusable :: "'v tools \<Rightarrow> world \<Rightarrow> bool" where
  "session_unusable t w =
     (case session t of None \<Rightarrow> True | Some s \<Rightarrow> closed (heap w ! s))"

definition ensure_session ::
  "'v tools \<Rightarrow> world \<Rightarrow> (py_exc + unit) \<times> 'v tools \<times> world" where
  "ensure_session t w =
     (if session_unusable t w then
        if session_externally_managed t then
          (Inl (RuntimeError ''External aiohttp session is closed or was not provided.''), t, w)
        else
          (case ClientSession w of (s, w') \<Rightarrow>
             (Inr (),
              t\<lparr>session := Some s, session_externally_managed := False\<rparr>,
              logging (Log DEBUG ''Created new internal aiohttp session.'' []) w'))
      else (Inr (), t, w))"

definition close :: "'v tools \<Rightarrow> world \<Rightarrow> (py_exc + unit) \<times> 'v tools \<times> world" where
  "close t w =
     (case session t of
        Some s \<Rightarrow>
          if \<not> session_externally_managed t \<and> \<not> closed (heap w ! s) then
            (Inr (), t, logging (Log DEBUG ''Closed internal aiohttp session.'' []) (session_close s w))
          else (Inr (), t, w)
      | None \<Rightarrow> (Inr (), t, w))"

text \<open>\<^verbatim>\<open>__aenter__\<close> and \<^verbatim>\<open>__aexit__\<close>\<close>

definition aenter :: "'v tools \<Rightarrow> world \<Rightarrow> (py_exc + unit) \<times> 'v tools \<times> world" where
  "aenter t w = ensure_session t w"

definition aexit :: "'v tools \<Rightarrow> world \<Rightarrow> (py_exc + unit) \<times> 'v tools \<times> world" where
  "aexit t w = close t w"

section \<open>The transport\<close>

text \<open>
  The HTTP transport is outside the tool. What one call of \<^verbatim>\<open>session.post(url, json=data)\<close>
  yields is a parameter of the model: it raises, or it gives a response with a status, and
  with what \<^verbatim>\<open>await response.text()\<close> and \<^verbatim>\<open>await response.json()\<close> give (each may raise too).
\<close>

record response =
  status :: int
  text_result :: "py_exc + string"
  json_result :: "py_exc + json"

type_synonym post = "string \<Rightarrow> payload \<Rightarrow> py_exc + response"

text \<open>
  \<^verbatim>\<open>self.session.post(url, json=data)\<close>. With \<^verbatim>\<open>self.session\<close> being \<^verbatim>\<open>None\<close> the attribute
  lookup raises; otherwise the call is recorded in \<open>requests\<close>. Both senders call it only
  after \<open>ensure_session\<close> has returned.
\<close>

definition session_post ::
  "post \<Rightarrow> 'v tools \<Rightarrow> string \<Rightarrow> payload \<Rightarrow> world \<Rightarrow> (py_exc + response) \<times> world" where
  "session_post post t url data w =
     (case session t of
        None \<Rightarrow> (Inl (AttributeError ''NoneType object has no attribute post''), w)
      | Some s \<Rightarrow> (post url data, w\<lparr>requests := requests w @ [(s, url, data)]\<rparr>))"

section \<open>The senders\<close>

text \<open>
  The two handlers that close the \<^verbatim>\<open>try\<close> block of both senders, in the order of the source:
  \<^verbatim>\<open>except aiohttp.ClientError\<close>, then \<^verbatim>\<open>except Exception\<close>. Both return \<^verbatim>\<open>False\<close>.
\<close>

definition handle_exc ::
  "py_exc \<Rightarrow> 'v tools \<Rightarrow> world \<Rightarrow> (py_exc + bool) \<times> 'v tools \<times> world" where
  "handle_exc e t w =
     (if isinstance_ClientError e then
        (Inr False, t, logging (Log ERROR ''AIOHTTP client error occurred: {e}'' [Exc e]) w)
      else
        (Inr False, t,
         logging (LogException ''An unexpected error occurred while sending the message: {e}''
                    [Exc e]) w))"

record dvalves =
  WEBHOOK_URL :: string

record tvalves =
  TELEGRAM_BOT_TOKEN :: string
  TELEGRAM_CHAT_ID :: string

text \<open>
  \<^verbatim>\<open>send_message\<close> of \<^verbatim>\<open>discord_webhook.py\<close>. Its \<^verbatim>\<open>try\<close> block is modelled in three parts, in
  the order of the source: the truncation (\<^verbatim>\<open>if len(message_content) > 2000\<close>), the request,
  and the body of the \<^verbatim>\<open>async with\<close> block, which reads the response.
\<close>

definition discord_truncate :: "string \<Rightarrow> world \<Rightarrow> string \<times> world" where
  "discord_truncate message_content w =
     (if length message_content > 2000 then
        (take 2000 message_content,
         logging (Log WARNING
           ''Message content exceeds Discord limit (2000 characters). Truncating.'' []) w)
      else (message_content, w))"

definition discord_response ::
  "response \<Rightarrow> 'v tools \<Rightarrow> world \<Rightarrow> (py_exc + bool) \<times> 'v tools \<times> world" where
  "discord_response response t w =
     (if status response = 204 then
        (Inr True, t, logging (Log INFO ''Message successfully sent to Discord.'' []) w)
      else
        (case text_result response of
           Inl e \<Rightarrow> handle_exc e t w
         | Inr body \<Rightarrow>
             (Inr False, t,
              logging (Log ERROR ''Failed to send message. Status: {}, Response: {}''
                [Num (status response), Str body]) w)))"

definition send_message ::
  "post \<Rightarrow> string \<Rightarrow> dvalves tools \<Rightarrow> world \<Rightarrow> (py_exc + bool) \<times> dvalves tools \<times> world" where
  "send_message post message_content t w =
     (case ensure_session t w of
        (Inl e, t1, w1) \<Rightarrow> handle_exc e t1 w1
      | (Inr _, t1, w1) \<Rightarrow>
          (case discord_truncate message_content w1 of
             (message_content', w2) \<Rightarrow>
               (case session_post post t1 (WEBHOOK_URL (valves t1))
                       [(''content'', message_content')] w2 of
                  (Inl e, w3) \<Rightarrow> handle_exc e t1 w3
                | (Inr response, w3) \<Rightarrow> discord_response response t1 w3)))"

text \<open>\<^verbatim>\<open>send_telegram_message\<close> of \<^verbatim>\<open>telegram_symphony.py\<close>, in the same three parts.\<close>

definition telegram_truncate :: "string \<Rightarrow> world \<Rightarrow> string \<times> world" where
  "telegram_truncate message_content w =
     (if length message_content > 4096 then
        (take 4096 message_content,
         logging (Log WARNING
           ''Message content exceeds Telegram limit (4096 characters). Truncating.'' []) w)
      else (message_content, w))"

definition telegram_response ::
  "response \<Rightarrow> 'v tools \<Rightarrow> world \<Rightarrow> (py_exc + bool) \<times> 'v tools \<times> world" where
  "telegram_response response t w =
     (if status response = 200 then
        (case json_result response of
           Inl e \<Rightarrow> handle_exc e t w
         | Inr response_json \<Rightarrow>
             (case dict_get response_json ''ok'' JNull of
                Inl e \<Rightarrow> handle_exc e t w
              | Inr ok \<Rightarrow>
                  if truthy ok then
                    (Inr True, t,
                     logging (Log INFO ''Message successfully sent to Telegram.'' []) w)
                  else
                    (case dict_get response_json ''description'' (JStr ''Unknown error'') of
                       Inl e \<Rightarrow> handle_exc e t w
                     | Inr description \<Rightarrow>
                         (Inr False, t,
                          logging (Log ERROR
                            ''Failed to send message. Telegram API returned error: {}''
                            [Json description]) w))))
      else
        (case text_result response of
           Inl e \<Rightarrow> handle_exc e t w
         | Inr body \<Rightarrow>
             (Inr False, t,
              logging (Log ERROR ''Failed to send message. Status: {}, Response: {}''
                [Num (status response), Str body]) w)))"

definition telegram_url :: "tvalves \<Rightarrow> string" where
  "telegram_url v = ''https://api.telegram.org/bot'' @ TELEGRAM_BOT_TOKEN v @ ''/sendMessage''"

definition send_telegram_message ::
  "post \<Rightarrow> string \<Rightarrow> tvalves tools \<Rightarrow> world \<Rightarrow> (py_exc + bool) \<times> tvalves tools \<times> world" where
  "send_telegram_message post message_content t w =
     (case ensure_session t w of
        (Inl e, t1, w1) \<Rightarrow> handle_exc e t1 w1
      | (Inr _, t1, w1) \<Rightarrow>
          (case telegram_truncate message_content w1 of
             (message_content', w2) \<Rightarrow>
               (case session_post post t1 (telegram_url (valves t1))
                       [(''chat_id'', TELEGRAM_CHAT_ID (valves t1)), (''text'', message_content')]
                       w2 of
                  (Inl e, w3) \<Rightarrow> handle_exc e t1 w3
                | (Inr response, w3) \<Rightarrow> telegram_response response t1 w3)))"

section \<open>Configuration\<close>

text \<open>
  The process environment, read by \<^verbatim>\<open>os.environ.get(key, "")\<close> when the class \<^verbatim>\<open>Valves\<close> is
  defined: the value read is the default of the field.
\<close>

type_synonym environ = "string \<rightharpoonup> string"

definition environ_get :: "environ \<Rightarrow> string \<Rightarrow> string \<Rightarrow> string" where
  "environ_get env k d = (case env k of None \<Rightarrow> d | Some v \<Rightarrow> v)"

text \<open>The validator of the Discord field; it logs a warning, so it takes the world.\<close>

definition validate_webhook_url :: "string \<Rightarrow> world \<Rightarrow> (py_exc + string) \<times> world" where
  "validate_webhook_url v w =
     (if v = [] then
        (Inl (ValueError ''DISCORD_WEBHOOK_URL environment variable must be set.''), w)
      else if \<not> prefix ''https://discord.com/api/webhooks/'' v then
        (Inr v,
         logging (Log WARNING
           ''Webhook URL does not look like a standard Discord webhook URL.'' []) w)
      else (Inr v, w))"

text \<open>
  The validators of the Telegram fields. Python's builtin \<^verbatim>\<open>int\<close> applied to a \<^verbatim>\<open>str\<close> is a
  parameter \<open>py_int\<close>: \<open>None\<close> where it raises \<^verbatim>\<open>ValueError\<close>.
\<close>

definition validate_bot_token :: "string \<Rightarrow> py_exc + string" where
  "validate_bot_token v =
     (if v = [] then Inl (ValueError ''TELEGRAM_BOT_TOKEN environment variable must be set.'')
      else Inr v)"

definition validate_chat_id :: "(string \<Rightarrow> int option) \<Rightarrow> string \<Rightarrow> py_exc + string" where
  "validate_chat_id py_int v =
     (if v = [] then Inl (ValueError ''TELEGRAM_CHAT_ID environment variable must be set.'')
      else
        (case py_int v of
           None \<Rightarrow>
             Inl (ValueError
               ''TELEGRAM_CHAT_ID must be a valid integer representing the chat ID.'')
         | Some _ \<Rightarrow> Inr v))"

text \<open>
  Creating a \<^verbatim>\<open>Valves\<close>. The class is a pydantic \<^verbatim>\<open>BaseModel\<close> and the validators are
  registered with \<^verbatim>\<open>@validator("FIELD")\<close>, that is with pydantic's default \<^verbatim>\<open>always=False\<close>:
  a validator registered so runs on a value that the call supplies for the field, and is
  not called for a field that the call leaves out, which takes its default as it is.
  The argument is what the call supplies for each field (\<open>None\<close>: left out). The errors of
  the validators are collected into one \<^verbatim>\<open>ValidationError\<close>.
\<close>

definition discord_Valves ::
  "environ \<Rightarrow> string option \<Rightarrow> world \<Rightarrow> (py_exc + dvalves) \<times> world" where
  "discord_Valves env supplied w =
     (case supplied of
        None \<Rightarrow> (Inr \<lparr>WEBHOOK_URL = environ_get env ''DISCORD_WEBHOOK_URL'' []\<rparr>, w)
      | Some v \<Rightarrow>
          (case validate_webhook_url v w of
             (Inl e, w') \<Rightarrow> (Inl (ValidationError [e]), w')
           | (Inr v', w') \<Rightarrow> (Inr \<lparr>WEBHOOK_URL = v'\<rparr>, w')))"

definition telegram_Valves ::
  "(string \<Rightarrow> int option) \<Rightarrow> environ \<Rightarrow> string option \<Rightarrow> string option \<Rightarrow> py_exc + tvalves" where
  "telegram_Valves py_int env supplied_token supplied_chat =
     (let r1 = (case supplied_token of
                  None \<Rightarrow> Inr (environ_get env ''TELEGRAM_BOT_TOKEN'' [])
                | Some v \<Rightarrow> validate_bot_token v);
          r2 = (case supplied_chat of
                  None \<Rightarrow> Inr (environ_get env ''TELEGRAM_CHAT_ID'' [])
                | Some v \<Rightarrow> validate_chat_id py_int v)
      in case (r1, r2) of
           (Inr tok, Inr chat) \<Rightarrow> Inr \<lparr>TELEGRAM_BOT_TOKEN = tok, TELEGRAM_CHAT_ID = chat\<rparr>
         | (Inl e1, Inr _) \<Rightarrow> Inl (ValidationError [e1])
         | (Inr _, Inl e2) \<Rightarrow> Inl (ValidationError [e2])
         | (Inl e1, Inl e2) \<Rightarrow> Inl (ValidationError [e1, e2]))"

text \<open>
  \<^verbatim>\<open>Tools.__init__(self, session=None)\<close> of each module. It creates the configuration with
  \<^verbatim>\<open>self.Valves()\<close>, a call that supplies no field. A session object is always true in
  \<^verbatim>\<open>if session:\<close>, so the test is whether a session was passed.
\<close>

definition discord_Tools_init ::
  "environ \<Rightarrow> nat option \<Rightarrow> world \<Rightarrow> (py_exc + dvalves tools) \<times> world" where
  "discord_Tools_init env sess w =
     (case discord_Valves env None w of
        (Inl e, w') \<Rightarrow> (Inl e, w')
      | (Inr v, w') \<Rightarrow>
          (case sess of
             Some s \<Rightarrow>
               (Inr \<lparr>valves = v, session = Some s, session_externally_managed = True\<rparr>, w')
           | None \<Rightarrow>
               (Inr \<lparr>valves = v, session = None, session_externally_managed = False\<rparr>, w')))"

definition telegram_Tools_init ::
  "(string \<Rightarrow> int option) \<Rightarrow> environ \<Rightarrow> nat option \<Rightarrow> world
     \<Rightarrow> (py_exc + tvalves tools) \<times> world" where
  "telegram_Tools_init py_int env sess w =
     (case telegram_Valves py_int env None None of
        Inl e \<Rightarrow> (Inl e, w)
      | Inr v \<Rightarrow>
          (case sess of
             Some s \<Rightarrow>
               (Inr \<lparr>valves = v, session = Some s, session_externally_managed = True\<rparr>, w)
           | None \<Rightarrow>
               (Inr \<lparr>valves = v, session = None, session_externally_managed = False\<rparr>, w)))"

section \<open>Sequences of operations\<close>

text \<open>
  What a caller can do with an instance, one operation after the other. A send carries what
  the transport yields for its request. An operation that raises leaves the instance as the
  code left it, and the caller goes on.
\<close>

datatype op =
    Ensure
  | Send string "py_exc + response"
  | Release
  | Enter
  | Exit

text \<open>The transport that yields \<open>r\<close> for every request.\<close>

definition always :: "(py_exc + response) \<Rightarrow> post" where
  "always r url data = r"

definition drop_result :: "'r \<times> 'v tools \<times> world \<Rightarrow> 'v tools \<times> world" where
  "drop_result x = snd x"

text \<open>One operation, given the sender of the module.\<close>

fun step ::
  "(post \<Rightarrow> string \<Rightarrow> 'v tools \<Rightarrow> world \<Rightarrow> (py_exc + bool) \<times> 'v tools \<times> world)
     \<Rightarrow> op \<Rightarrow> 'v tools \<times> world \<Rightarrow> 'v tools \<times> world" where
  "step send Ensure (t, w) = drop_result (ensure_session t w)"
| "step send (Send m r) (t, w) = drop_result (send (always r) m t w)"
| "step send Release (t, w) = drop_result (close t w)"
| "step send Enter (t, w) = drop_result (aenter t w)"
| "step send Exit (t, w) = drop_result (aexit t w)"

text \<open>\<open>fold\<close> runs the operations from the left.\<close>

definition discord_run :: "op list \<Rightarrow> dvalves tools \<times> world \<Rightarrow> dvalves tools \<times> world" where
  "discord_run ops tw = fold (step send_message) ops tw"

definition telegram_run :: "op list \<Rightarrow> tvalves tools \<times> world \<Rightarrow> tvalves tools \<times> world" where
  "telegram_run ops tw = fold (step send_telegram_message) ops tw"

text \<open>
  The reference that the instance holds is one of the store: in Python a reference always
  points to an object.
\<close>

definition wf_ref :: "'v tools \<Rightarrow> world \<Rightarrow> bool" where
  "wf_ref t w = (case session t of None \<Rightarrow> True | Some s \<Rightarrow> s < length (heap w))"

text \<open>Calling \<^verbatim>\<open>close\<close> \<open>n\<close> times in a row; the result is the last call's.\<close>

fun close_times :: "nat \<Rightarrow> 'v tools \<Rightarrow> world \<Rightarrow> (py_exc + unit) \<times> 'v tools \<times> world" where
  "close_times 0 t w = (Inr (), t, w)"
| "close_times (Suc n) t w =
     (case close t w of
        (Inl e, t', w') \<Rightarrow> (Inl e, t', w')
      | (Inr _, t', w') \<Rightarrow> close_times n t' w')"

subsection \<open>Session management\<close>

lemma ensure_session_ok:
  "\<not> (session_externally_managed t \<and> session_unusable t w) \<Longrightarrow>
   \<exists>t1 w1 s. ensure_session t w = (Inr (), t1, w1) \<and> session t1 = Some s
      \<and> valves t1 = valves t \<and> requests w1 = requests w"
  by (cases "session t")
     (simp_all add: ensure_session_def session_unusable_def ClientSession_def logging_def)

lemma ensure_session_fail:
  "session_externally_managed t \<Longrightarrow> session_unusable t w \<Longrightarrow>
   ensure_session t w =
     (Inl (RuntimeError ''External aiohttp session is closed or was not provided.''), t, w)"
  by (simp add: ensure_session_def)

lemma ensure_session_flag:
  "ensure_session t w = (r, t', w') \<Longrightarrow>
     session_externally_managed t' = session_externally_managed t \<and> valves t' = valves t
     \<and> (session_externally_managed t \<longrightarrow> t' = t \<and> w' = w)"
  by (auto simp: ensure_session_def ClientSession_def split: if_splits)

lemma close_flag:
  "close t w = (r, t', w') \<Longrightarrow> t' = t \<and> (session_externally_managed t \<longrightarrow> w' = w)"
  by (auto simp: close_def split: option.splits if_splits)

lemma close_result: "fst (close t w) = Inr () \<and> fst (snd (close t w)) = t"
  by (simp add: close_def split: option.splits)

lemma close_again:
  "wf_ref t w \<Longrightarrow> close t w = (r, t', w') \<Longrightarrow> close t' w' = (Inr (), t', w') \<and> wf_ref t' w'"
  by (auto simp: close_def wf_ref_def session_close_def logging_def
      split: option.splits if_splits)

lemma close_times_Suc: "wf_ref t w \<Longrightarrow> close_times (Suc n) t w = close t w"
proof (induction n arbitrary: t w)
  case 0
  then show ?case using close_result[of t w] by (cases "close t w") auto
next
  case (Suc n)
  obtain r t' w' where c: "close t w = (r, t', w')" by (cases "close t w") auto
  have r: "r = Inr ()" using close_result[of t w] c by simp
  have "close_times (Suc (Suc n)) t w = close_times (Suc n) t' w'"
    using c r by simp
  also have "\<dots> = close t' w'"
  proof -
    have "wf_ref t' w'" using close_again[OF Suc.prems c] by simp
    then show ?thesis by (rule Suc.IH)
  qed
  also have "\<dots> = (Inr (), t', w')" using close_again[OF Suc.prems c] by simp
  finally show ?case using c r by simp
qed

subsection \<open>The parts of the senders\<close>

lemma handle_exc_result:
  "handle_exc e t w = (r, t', w') \<Longrightarrow>
     r = Inr False \<and> t' = t \<and> heap w' = heap w \<and> requests w' = requests w"
  by (auto simp: handle_exc_def logging_def split: if_splits)

lemma handle_exc_fst: "fst (handle_exc e t w) = Inr False"
  by (simp add: handle_exc_def)

lemma session_post_Some:
  "session t = Some s \<Longrightarrow>
   session_post post t url data w = (post url data, w\<lparr>requests := requests w @ [(s, url, data)]\<rparr>)"
  by (simp add: session_post_def)

lemma discord_truncate_fst:
  "fst (discord_truncate m w) = (if length m > 2000 then take 2000 m else m)"
  by (simp add: discord_truncate_def)

lemma discord_truncate_snd:
  "heap (snd (discord_truncate m w)) = heap w \<and> requests (snd (discord_truncate m w)) = requests w"
  by (simp add: discord_truncate_def logging_def)

lemma telegram_truncate_fst:
  "fst (telegram_truncate m w) = (if length m > 4096 then take 4096 m else m)"
  by (simp add: telegram_truncate_def)

lemma telegram_truncate_snd:
  "heap (snd (telegram_truncate m w)) = heap w \<and> requests (snd (telegram_truncate m w)) = requests w"
  by (simp add: telegram_truncate_def logging_def)

lemma discord_response_state:
  "discord_response r t w = (b, t', w') \<Longrightarrow>
     t' = t \<and> heap w' = heap w \<and> requests w' = requests w \<and> (\<exists>v. b = Inr v)"
  by (auto simp: discord_response_def logging_def split: if_splits sum.splits
      dest: handle_exc_result)

lemma telegram_response_state:
  "telegram_response r t w = (b, t', w') \<Longrightarrow>
     t' = t \<and> heap w' = heap w \<and> requests w' = requests w \<and> (\<exists>v. b = Inr v)"
  by (auto simp: telegram_response_def logging_def split: if_splits sum.splits
      dest: handle_exc_result)

lemma send_message_unfold:
  assumes "ensure_session t w = (Inr (), t1, w1)" and "session t1 = Some s"
  shows "send_message post m t w =
     (case post (WEBHOOK_URL (valves t1)) [(''content'', fst (discord_truncate m w1))] of
        Inl e \<Rightarrow>
          handle_exc e t1
            ((snd (discord_truncate m w1))\<lparr>requests := requests (snd (discord_truncate m w1)) @
               [(s, WEBHOOK_URL (valves t1), [(''content'', fst (discord_truncate m w1))])]\<rparr>)
      | Inr response \<Rightarrow>
          discord_response response t1
            ((snd (discord_truncate m w1))\<lparr>requests := requests (snd (discord_truncate m w1)) @
               [(s, WEBHOOK_URL (valves t1), [(''content'', fst (discord_truncate m w1))])]\<rparr>))"
  by (simp add: send_message_def assms session_post_Some case_prod_beta split: sum.splits)

lemma send_telegram_message_unfold:
  assumes "ensure_session t w = (Inr (), t1, w1)" and "session t1 = Some s"
  shows "send_telegram_message post m t w =
     (case post (telegram_url (valves t1))
             [(''chat_id'', TELEGRAM_CHAT_ID (valves t1)),
              (''text'', fst (telegram_truncate m w1))] of
        Inl e \<Rightarrow>
          handle_exc e t1
            ((snd (telegram_truncate m w1))\<lparr>requests := requests (snd (telegram_truncate m w1)) @
               [(s, telegram_url (valves t1),
                 [(''chat_id'', TELEGRAM_CHAT_ID (valves t1)),
                  (''text'', fst (telegram_truncate m w1))])]\<rparr>)
      | Inr response \<Rightarrow>
          telegram_response response t1
            ((snd (telegram_truncate m w1))\<lparr>requests := requests (snd (telegram_truncate m w1)) @
               [(s, telegram_url (valves t1),
                 [(''chat_id'', TELEGRAM_CHAT_ID (valves t1)),
                  (''text'', fst (telegram_truncate m w1))])]\<rparr>))"
  by (simp add: send_telegram_message_def assms session_post_Some case_prod_beta split: sum.splits)

lemma send_message_fail:
  "ensure_session t w = (Inl e, t1, w1) \<Longrightarrow> send_message post m t w = handle_exc e t1 w1"
  by (simp add: send_message_def)

lemma send_telegram_message_fail:
  "ensure_session t w = (Inl e, t1, w1) \<Longrightarrow> send_telegram_message post m t w = handle_exc e t1 w1"
  by (simp add: send_telegram_message_def)

subsection \<open>What a send returns\<close>

lemma discord_response_returns: "\<exists>b. fst (discord_response r t w) = Inr b"
  by (auto simp: discord_response_def handle_exc_fst split: sum.splits)

lemma telegram_response_returns: "\<exists>b. fst (telegram_response r t w) = Inr b"
  by (auto simp: telegram_response_def handle_exc_fst split: sum.splits)

lemma send_message_returns: "\<exists>b. fst (send_message post m t w) = Inr b"
proof (cases "session_externally_managed t \<and> session_unusable t w")
  case True
  then show ?thesis
    using send_message_fail[OF ensure_session_fail, of t w post m] by (auto simp: handle_exc_fst)
next
  case False
  from ensure_session_ok[OF False] obtain t1 w1 s where
    e: "ensure_session t w = (Inr (), t1, w1)" and s: "session t1 = Some s" by blast
  show ?thesis
    by (cases "post (WEBHOOK_URL (valves t1)) [(''content'', fst (discord_truncate m w1))]")
       (auto simp: send_message_unfold[OF e s] handle_exc_fst discord_response_returns)
qed

lemma send_telegram_message_returns: "\<exists>b. fst (send_telegram_message post m t w) = Inr b"
proof (cases "session_externally_managed t \<and> session_unusable t w")
  case True
  then show ?thesis
    using send_telegram_message_fail[OF ensure_session_fail, of t w post m]
    by (auto simp: handle_exc_fst)
next
  case False
  from ensure_session_ok[OF False] obtain t1 w1 s where
    e: "ensure_session t w = (Inr (), t1, w1)" and s: "session t1 = Some s" by blast
  show ?thesis
    by (cases "post (telegram_url (valves t1))
             [(''chat_id'', TELEGRAM_CHAT_ID (valves t1)),
              (''text'', fst (telegram_truncate m w1))]")
       (auto simp: send_telegram_message_unfold[OF e s] handle_exc_fst telegram_response_returns)
qed

lemma send_message_post_raises:
  assumes "\<And>url data. post url data = Inl e"
  shows "fst (send_message post m t w) = Inr False"
proof (cases "session_externally_managed t \<and> session_unusable t w")
  case True
  then show ?thesis
    using send_message_fail[OF ensure_session_fail, of t w post m] by (simp add: handle_exc_fst)
next
  case False
  from ensure_session_ok[OF False] obtain t1 w1 s where
    e: "ensure_session t w = (Inr (), t1, w1)" and s: "session t1 = Some s" by blast
  show ?thesis
    by (simp add: send_message_unfold[OF e s] assms handle_exc_fst)
qed

lemma send_telegram_message_post_raises:
  assumes "\<And>url data. post url data = Inl e"
  shows "fst (send_telegram_message post m t w) = Inr False"
proof (cases "session_externally_managed t \<and> session_unusable t w")
  case True
  then show ?thesis
    using send_telegram_message_fail[OF ensure_session_fail, of t w post m]
    by (simp add: handle_exc_fst)
next
  case False
  from ensure_session_ok[OF False] obtain t1 w1 s where
    e: "ensure_session t w = (Inr (), t1, w1)" and s: "session t1 = Some s" by blast
  show ?thesis
    by (simp add: send_telegram_message_unfold[OF e s] assms handle_exc_fst)
qed

lemma send_message_state:
  "send_message post m t w = (r, t', w') \<Longrightarrow>
     t' = fst (snd (ensure_session t w)) \<and> heap w' = heap (snd (snd (ensure_session t w)))"
proof (cases "session_externally_managed t \<and> session_unusable t w")
  case True
  assume a: "send_message post m t w = (r, t', w')"
  from True have f: "ensure_session t w =
     (Inl (RuntimeError ''External aiohttp session is closed or was not provided.''), t, w)"
    by (simp add: ensure_session_fail)
  from a send_message_fail[OF f, of post m] handle_exc_result[of _ t w r t' w'] f
  show ?thesis by simp
next
  case False
  assume a: "send_message post m t w = (r, t', w')"
  from ensure_session_ok[OF False] obtain t1 w1 s where
    e: "ensure_session t w = (Inr (), t1, w1)" and s: "session t1 = Some s" by blast
  let ?w3 = "(snd (discord_truncate m w1))\<lparr>requests := requests (snd (discord_truncate m w1)) @
               [(s, WEBHOOK_URL (valves t1), [(''content'', fst (discord_truncate m w1))])]\<rparr>"
  have h3: "heap ?w3 = heap w1" by (simp add: discord_truncate_snd)
  show ?thesis
  proof (cases "post (WEBHOOK_URL (valves t1)) [(''content'', fst (discord_truncate m w1))]")
    case (Inl x)
    with a have "handle_exc x t1 ?w3 = (r, t', w')" by (simp add: send_message_unfold[OF e s])
    from handle_exc_result[OF this] h3 e show ?thesis by simp
  next
    case (Inr y)
    with a have "discord_response y t1 ?w3 = (r, t', w')" by (simp add: send_message_unfold[OF e s])
    from discord_response_state[OF this] h3 e show ?thesis by simp
  qed
qed

lemma send_telegram_message_state:
  "send_telegram_message post m t w = (r, t', w') \<Longrightarrow>
     t' = fst (snd (ensure_session t w)) \<and> heap w' = heap (snd (snd (ensure_session t w)))"
proof (cases "session_externally_managed t \<and> session_unusable t w")
  case True
  assume a: "send_telegram_message post m t w = (r, t', w')"
  from True have f: "ensure_session t w =
     (Inl (RuntimeError ''External aiohttp session is closed or was not provided.''), t, w)"
    by (simp add: ensure_session_fail)
  from a send_telegram_message_fail[OF f, of post m] handle_exc_result[of _ t w r t' w'] f
  show ?thesis by simp
next
  case False
  assume a: "send_telegram_message post m t w = (r, t', w')"
  from ensure_session_ok[OF False] obtain t1 w1 s where
    e: "ensure_session t w = (Inr (), t1, w1)" and s: "session t1 = Some s" by blast
  let ?d = "[(''chat_id'', TELEGRAM_CHAT_ID (valves t1)), (''text'', fst (telegram_truncate m w1))]"
  let ?w3 = "(snd (telegram_truncate m w1))\<lparr>requests := requests (snd (telegram_truncate m w1)) @
               [(s, telegram_url (valves t1), ?d)]\<rparr>"
  have h3: "heap ?w3 = heap w1" by (simp add: telegram_truncate_snd)
  show ?thesis
  proof (cases "post (telegram_url (valves t1)) ?d")
    case (Inl x)
    with a have "handle_exc x t1 ?w3 = (r, t', w')"
      by (simp add: send_telegram_message_unfold[OF e s])
    from handle_exc_result[OF this] h3 e show ?thesis by simp
  next
    case (Inr y)
    with a have "telegram_response y t1 ?w3 = (r, t', w')"
      by (simp add: send_telegram_message_unfold[OF e s])
    from telegram_response_state[OF this] h3 e show ?thesis by simp
  qed
qed

subsection \<open>Sequences of operations\<close>

lemma step_flag:
  assumes send: "\<And>post m t w r t' w'. send post m t w = (r, t', w') \<Longrightarrow>
     t' = fst (snd (ensure_session t w)) \<and> heap w' = heap (snd (snd (ensure_session t w)))"
    and st: "step send x (t, w) = (t', w')"
  shows "session_externally_managed t' = session_externally_managed t \<and> valves t' = valves t
     \<and> (session_externally_managed t \<longrightarrow> session t' = session t \<and> heap w' = heap w)"
proof (cases x)
  case Ensure
  with st have "ensure_session t w = (fst (ensure_session t w), t', w')"
    by (simp add: drop_result_def) (metis prod.collapse)
  from ensure_session_flag[OF this] show ?thesis by auto
next
  case (Send m r)
  obtain q t1 w1 where e: "ensure_session t w = (q, t1, w1)"
    by (cases "ensure_session t w") auto
  from st Send have "send (always r) m t w = (fst (send (always r) m t w), t', w')"
    by (simp add: drop_result_def) (metis prod.collapse)
  from send[OF this] e have "t' = t1 \<and> heap w' = heap w1" by simp
  with ensure_session_flag[OF e] show ?thesis by auto
next
  case Release
  with st have "close t w = (fst (close t w), t', w')"
    by (simp add: drop_result_def) (metis prod.collapse)
  from close_flag[OF this] show ?thesis by auto
next
  case Enter
  with st have "ensure_session t w = (fst (ensure_session t w), t', w')"
    by (simp add: drop_result_def aenter_def) (metis prod.collapse)
  from ensure_session_flag[OF this] show ?thesis by auto
next
  case Exit
  with st have "close t w = (fst (close t w), t', w')"
    by (simp add: drop_result_def aexit_def) (metis prod.collapse)
  from close_flag[OF this] show ?thesis by auto
qed

lemma fold_step_flag:
  assumes send: "\<And>post m t w r t' w'. send post m t w = (r, t', w') \<Longrightarrow>
     t' = fst (snd (ensure_session t w)) \<and> heap w' = heap (snd (snd (ensure_session t w)))"
  shows "fold (step send) ops (t, w) = (t', w') \<Longrightarrow>
     session_externally_managed t' = session_externally_managed t \<and> valves t' = valves t
     \<and> (session_externally_managed t \<longrightarrow> session t' = session t \<and> heap w' = heap w)"
proof (induction ops arbitrary: t w)
  case Nil
  then show ?case by simp
next
  case (Cons x ops)
  obtain t1 w1 where s: "step send x (t, w) = (t1, w1)" by (cases "step send x (t, w)") auto
  from Cons.prems s have "fold (step send) ops (t1, w1) = (t', w')" by simp
  from Cons.IH[OF this] step_flag[OF send s] show ?case by auto
qed

lemma discord_run_flag:
  "session_externally_managed (fst (discord_run ops (t, w))) = session_externally_managed t
   \<and> valves (fst (discord_run ops (t, w))) = valves t
   \<and> (session_externally_managed t \<longrightarrow>
        session (fst (discord_run ops (t, w))) = session t
        \<and> heap (snd (discord_run ops (t, w))) = heap w)"
  using fold_step_flag[of send_message ops t w "fst (discord_run ops (t, w))"
      "snd (discord_run ops (t, w))", OF send_message_state]
  by (simp add: discord_run_def)

lemma telegram_run_flag:
  "session_externally_managed (fst (telegram_run ops (t, w))) = session_externally_managed t
   \<and> valves (fst (telegram_run ops (t, w))) = valves t
   \<and> (session_externally_managed t \<longrightarrow>
        session (fst (telegram_run ops (t, w))) = session t
        \<and> heap (snd (telegram_run ops (t, w))) = heap w)"
  using fold_step_flag[of send_telegram_message ops t w "fst (telegram_run ops (t, w))"
      "snd (telegram_run ops (t, w))", OF send_telegram_message_state]
  by (simp add: telegram_run_def)

section \<open>The claims\<close>

text \<open>
  Claim C1, as amended. With an externally managed session that is closed or absent at
  send time, the \<^verbatim>\<open>RuntimeError\<close> of \<^verbatim>\<open>_ensure_session\<close> is raised inside the \<^verbatim>\<open>try\<close> block of
  the sender and caught by its \<^verbatim>\<open>except Exception\<close> handler: the send returns \<^verbatim>\<open>False\<close>,
  logs the error, issues no request and creates no session. This holds for
  \<^verbatim>\<open>send_message\<close> and for \<^verbatim>\<open>send_telegram_message\<close>.
\<close>

theorem send_swallows_resource_error:
  assumes "session_externally_managed t" and "session_unusable t w"
      and "session_externally_managed t'" and "session_unusable t' w"
  shows "send_message post m t w =
           (Inr False, t,
            logging (LogException ''An unexpected error occurred while sending the message: {e}''
              [Exc (RuntimeError ''External aiohttp session is closed or was not provided.'')]) w)
       \<and> send_telegram_message post m t' w =
           (Inr False, t',
            logging (LogException ''An unexpected error occurred while sending the message: {e}''
              [Exc (RuntimeError ''External aiohttp session is closed or was not provided.'')]) w)"
  using send_message_fail[OF ensure_session_fail[OF assms(1,2)], of post m]
    send_telegram_message_fail[OF ensure_session_fail[OF assms(3,4)], of post m]
  by (simp add: handle_exc_def)

theorem send_swallows_resource_error_witness:
  "fst (send_message (always (Inr \<lparr>status = 204, text_result = Inr [], json_result = Inr JNull\<rparr>))
     ''hi''
     \<lparr>valves = \<lparr>WEBHOOK_URL = ''https://discord.com/api/webhooks/1/a''\<rparr>,
      session = Some 0, session_externally_managed = True\<rparr>
     \<lparr>heap = [\<lparr>closed = True, close_calls = 1\<rparr>], requests = [], logged = []\<rparr>) = Inr False
   \<and> requests (snd (snd (send_message
     (always (Inr \<lparr>status = 204, text_result = Inr [], json_result = Inr JNull\<rparr>))
     ''hi''
     \<lparr>valves = \<lparr>WEBHOOK_URL = ''https://discord.com/api/webhooks/1/a''\<rparr>,
      session = Some 0, session_externally_managed = True\<rparr>
     \<lparr>heap = [\<lparr>closed = True, close_calls = 1\<rparr>], requests = [], logged = []\<rparr>))) = []
   \<and> fst (send_telegram_message
     (always (Inr \<lparr>status = 200, text_result = Inr [], json_result = Inr (JDict [(''ok'', JBool True)])\<rparr>))
     ''hi''
     \<lparr>valves = \<lparr>TELEGRAM_BOT_TOKEN = ''t'', TELEGRAM_CHAT_ID = ''42''\<rparr>,
      session = Some 0, session_externally_managed = True\<rparr>
     \<lparr>heap = [\<lparr>closed = True, close_calls = 1\<rparr>], requests = [], logged = []\<rparr>) = Inr False"
  using send_swallows_resource_error [of
     "\<lparr>valves = \<lparr>WEBHOOK_URL = ''https://discord.com/api/webhooks/1/a''\<rparr>,
      session = Some 0, session_externally_managed = True\<rparr>"
     "\<lparr>heap = [\<lparr>closed = True, close_calls = 1\<rparr>], requests = [], logged = []\<rparr>"
     "\<lparr>valves = \<lparr>TELEGRAM_BOT_TOKEN = ''t'', TELEGRAM_CHAT_ID = ''42''\<rparr>,
      session = Some 0, session_externally_managed = True\<rparr>"]
  by (simp add: session_unusable_def logging_def)


text \<open>
  Claim C1 as it is written says that the send raises instead of returning \<^verbatim>\<open>False\<close>. At an
  externally supplied session that is closed, both senders return \<^verbatim>\<open>False\<close>; a raise would
  be an \<open>Inl\<close>.
\<close>

theorem send_raises_counterexample:
  "fst (send_message (always (Inr \<lparr>status = 204, text_result = Inr [], json_result = Inr JNull\<rparr>))
     ''hi''
     \<lparr>valves = \<lparr>WEBHOOK_URL = ''https://discord.com/api/webhooks/1/a''\<rparr>,
      session = Some 0, session_externally_managed = True\<rparr>
     \<lparr>heap = [\<lparr>closed = True, close_calls = 1\<rparr>], requests = [], logged = []\<rparr>)
   = Inr False
   \<and> fst (send_telegram_message
     (always (Inr \<lparr>status = 200, text_result = Inr [], json_result = Inr (JDict [(''ok'', JBool True)])\<rparr>))
     ''hi''
     \<lparr>valves = \<lparr>TELEGRAM_BOT_TOKEN = ''t'', TELEGRAM_CHAT_ID = ''42''\<rparr>,
      session = Some 0, session_externally_managed = True\<rparr>
     \<lparr>heap = [\<lparr>closed = True, close_calls = 1\<rparr>], requests = [], logged = []\<rparr>)
   = Inr False"
  by (simp add: send_message_def send_telegram_message_def ensure_session_def
      session_unusable_def handle_exc_def)

text \<open>
  Claim C2. Whenever the post operation raises (a transport error or any other error), both
  senders catch it and return \<^verbatim>\<open>False\<close>; whatever the transport and the response do, a
  send returns a boolean and raises nothing.
\<close>

theorem send_catches_request_errors:
  "((\<forall>url data. post url data = Inl e) \<longrightarrow>
      fst (send_message post m t w) = Inr False
      \<and> fst (send_telegram_message post m t' w) = Inr False)
   \<and> (\<exists>b. fst (send_message post m t w) = Inr b)
   \<and> (\<exists>b. fst (send_telegram_message post m t' w) = Inr b)"
  using send_message_post_raises[of post e m t w]
    send_telegram_message_post_raises[of post e m t' w]
    send_message_returns[of post m t w] send_telegram_message_returns[of post m t' w]
  by blast


theorem send_catches_request_errors_witness:
  "fst (send_message (always (Inl (ClientError ''connection reset''))) ''hi''
     \<lparr>valves = \<lparr>WEBHOOK_URL = ''https://discord.com/api/webhooks/1/a''\<rparr>,
      session = None, session_externally_managed = False\<rparr>
     \<lparr>heap = [], requests = [], logged = []\<rparr>) = Inr False
   \<and> fst (send_telegram_message (always (Inl (ClientError ''connection reset''))) ''hi''
     \<lparr>valves = \<lparr>TELEGRAM_BOT_TOKEN = ''t'', TELEGRAM_CHAT_ID = ''42''\<rparr>,
      session = None, session_externally_managed = False\<rparr>
     \<lparr>heap = [], requests = [], logged = []\<rparr>) = Inr False"
  using send_catches_request_errors [of
     "always (Inl (ClientError ''connection reset''))" "ClientError ''connection reset''" "''hi''"
     "\<lparr>valves = \<lparr>WEBHOOK_URL = ''https://discord.com/api/webhooks/1/a''\<rparr>,
      session = None, session_externally_managed = False\<rparr>"
     "\<lparr>heap = [], requests = [], logged = []\<rparr>"
     "\<lparr>valves = \<lparr>TELEGRAM_BOT_TOKEN = ''t'', TELEGRAM_CHAT_ID = ''42''\<rparr>,
      session = None, session_externally_managed = False\<rparr>"]
  by (simp add: always_def)

lemma telegram_response_true:
  "fst (telegram_response r t w) = Inr True \<longleftrightarrow>
     status r = 200 \<and>
     (\<exists>j ok. json_result r = Inr j \<and> dict_get j ''ok'' JNull = Inr ok \<and> truthy ok)"
  by (auto simp: telegram_response_def handle_exc_fst split: sum.splits)

lemma telegram_response_not_ok:
  assumes "status r = 200" and "json_result r = Inr j" and "dict_get j ''ok'' JNull = Inr ok"
    and "\<not> truthy ok" and "dict_get j ''description'' (JStr ''Unknown error'') = Inr d"
  shows "telegram_response r t w =
     (Inr False, t,
      logging (Log ERROR ''Failed to send message. Telegram API returned error: {}'' [Json d]) w)"
  using assms by (simp add: telegram_response_def)

lemma telegram_response_other_status:
  "status r \<noteq> 200 \<Longrightarrow> fst (telegram_response r t w) = Inr False"
  by (simp add: telegram_response_def handle_exc_fst split: sum.splits)

lemma send_telegram_message_always:
  assumes "\<not> (session_externally_managed t \<and> session_unusable t w)"
  shows "\<exists>t1 w3. send_telegram_message (always (Inr r)) m t w = telegram_response r t1 w3"
proof -
  from ensure_session_ok[OF assms] obtain t1 w1 s where
    e: "ensure_session t w = (Inr (), t1, w1)" and s: "session t1 = Some s" by blast
  show ?thesis
    by (auto simp: send_telegram_message_unfold[OF e s] always_def)
qed

text \<open>
  Claim C3. When \<^verbatim>\<open>_ensure_session\<close> succeeds and the request gives a response,
  \<^verbatim>\<open>send_telegram_message\<close> returns \<^verbatim>\<open>True\<close> if and only if the status is 200 and the parsed
  body has a true \<^verbatim>\<open>ok\<close> field. A 200 response whose \<^verbatim>\<open>ok\<close> is false gives \<^verbatim>\<open>False\<close>, and the
  last logging call carries the \<^verbatim>\<open>description\<close> field of the body. Every other status gives
  \<^verbatim>\<open>False\<close>.
\<close>

theorem telegram_success_iff_200_and_ok:
  assumes "\<not> (session_externally_managed t \<and> session_unusable t w)"
  shows "(fst (send_telegram_message (always (Inr r)) m t w) = Inr True \<longleftrightarrow>
            status r = 200 \<and>
            (\<exists>j ok. json_result r = Inr j \<and> dict_get j ''ok'' JNull = Inr ok \<and> truthy ok))
       \<and> (status r = 200 \<and> json_result r = Inr j \<and> dict_get j ''ok'' JNull = Inr ok
            \<and> \<not> truthy ok \<and> dict_get j ''description'' (JStr ''Unknown error'') = Inr d \<longrightarrow>
            fst (send_telegram_message (always (Inr r)) m t w) = Inr False
            \<and> last (logged (snd (snd (send_telegram_message (always (Inr r)) m t w)))) =
                Log ERROR ''Failed to send message. Telegram API returned error: {}'' [Json d])
       \<and> (status r \<noteq> 200 \<longrightarrow> fst (send_telegram_message (always (Inr r)) m t w) = Inr False)"
proof -
  from send_telegram_message_always[OF assms] obtain t1 w3 where
    u: "send_telegram_message (always (Inr r)) m t w = telegram_response r t1 w3" by blast
  show ?thesis
    unfolding u
    using telegram_response_true[of r t1 w3] telegram_response_other_status[of r t1 w3]
      telegram_response_not_ok[of r j ok d t1 w3]
    by (auto simp: logging_def)
qed

theorem telegram_success_iff_200_and_ok_witness:
  "fst (send_telegram_message
     (always (Inr \<lparr>status = 200, text_result = Inr [],
                    json_result = Inr (JDict [(''ok'', JBool True)])\<rparr>))
     ''hi''
     \<lparr>valves = \<lparr>TELEGRAM_BOT_TOKEN = ''t'', TELEGRAM_CHAT_ID = ''42''\<rparr>,
      session = Some 0, session_externally_managed = True\<rparr>
     \<lparr>heap = [\<lparr>closed = False, close_calls = 0\<rparr>], requests = [], logged = []\<rparr>) = Inr True
   \<and> fst (send_telegram_message
     (always (Inr \<lparr>status = 200, text_result = Inr [],
                    json_result = Inr (JDict [(''ok'', JBool False), (''description'', JStr ''x'')])\<rparr>))
     ''hi''
     \<lparr>valves = \<lparr>TELEGRAM_BOT_TOKEN = ''t'', TELEGRAM_CHAT_ID = ''42''\<rparr>,
      session = Some 0, session_externally_managed = True\<rparr>
     \<lparr>heap = [\<lparr>closed = False, close_calls = 0\<rparr>], requests = [], logged = []\<rparr>) = Inr False
   \<and> last (logged (snd (snd (send_telegram_message
     (always (Inr \<lparr>status = 200, text_result = Inr [],
                    json_result = Inr (JDict [(''ok'', JBool False), (''description'', JStr ''x'')])\<rparr>))
     ''hi''
     \<lparr>valves = \<lparr>TELEGRAM_BOT_TOKEN = ''t'', TELEGRAM_CHAT_ID = ''42''\<rparr>,
      session = Some 0, session_externally_managed = True\<rparr>
     \<lparr>heap = [\<lparr>closed = False, close_calls = 0\<rparr>], requests = [], logged = []\<rparr>)))) =
       Log ERROR ''Failed to send message. Telegram API returned error: {}'' [Json (JStr ''x'')]
   \<and> fst (send_telegram_message
     (always (Inr \<lparr>status = 403, text_result = Inr ''Forbidden'', json_result = Inr JNull\<rparr>))
     ''hi''
     \<lparr>valves = \<lparr>TELEGRAM_BOT_TOKEN = ''t'', TELEGRAM_CHAT_ID = ''42''\<rparr>,
      session = Some 0, session_externally_managed = True\<rparr>
     \<lparr>heap = [\<lparr>closed = False, close_calls = 0\<rparr>], requests = [], logged = []\<rparr>) = Inr False"
  using
    telegram_success_iff_200_and_ok [of
      "\<lparr>valves = \<lparr>TELEGRAM_BOT_TOKEN = ''t'', TELEGRAM_CHAT_ID = ''42''\<rparr>,
        session = Some 0, session_externally_managed = True\<rparr>"
      "\<lparr>heap = [\<lparr>closed = False, close_calls = 0\<rparr>], requests = [], logged = []\<rparr>"
      "\<lparr>status = 200, text_result = Inr [], json_result = Inr (JDict [(''ok'', JBool True)])\<rparr>"
      "''hi''" "JNull" "JNull" "JNull"]
    telegram_success_iff_200_and_ok [of
      "\<lparr>valves = \<lparr>TELEGRAM_BOT_TOKEN = ''t'', TELEGRAM_CHAT_ID = ''42''\<rparr>,
        session = Some 0, session_externally_managed = True\<rparr>"
      "\<lparr>heap = [\<lparr>closed = False, close_calls = 0\<rparr>], requests = [], logged = []\<rparr>"
      "\<lparr>status = 200, text_result = Inr [],
        json_result = Inr (JDict [(''ok'', JBool False), (''description'', JStr ''x'')])\<rparr>"
      "''hi''" "JDict [(''ok'', JBool False), (''description'', JStr ''x'')]" "JBool False"
      "JStr ''x''"]
    telegram_success_iff_200_and_ok [of
      "\<lparr>valves = \<lparr>TELEGRAM_BOT_TOKEN = ''t'', TELEGRAM_CHAT_ID = ''42''\<rparr>,
        session = Some 0, session_externally_managed = True\<rparr>"
      "\<lparr>heap = [\<lparr>closed = False, close_calls = 0\<rparr>], requests = [], logged = []\<rparr>"
      "\<lparr>status = 403, text_result = Inr ''Forbidden'', json_result = Inr JNull\<rparr>"
      "''hi''" "JNull" "JNull" "JNull"]
  by (simp add: session_unusable_def)

lemma discord_response_true: "fst (discord_response r t w) = Inr True \<longleftrightarrow> status r = 204"
  by (auto simp: discord_response_def handle_exc_fst split: sum.splits)

lemma discord_response_other_status:
  "status r \<noteq> 204 \<Longrightarrow> fst (discord_response r t w) = Inr False"
  by (simp add: discord_response_def handle_exc_fst split: sum.splits)

lemma discord_response_body:
  "status r \<noteq> 204 \<Longrightarrow> text_result r = Inr body \<Longrightarrow>
   discord_response r t w =
     (Inr False, t,
      logging (Log ERROR ''Failed to send message. Status: {}, Response: {}''
        [Num (status r), Str body]) w)"
  by (simp add: discord_response_def)

lemma send_message_always:
  assumes "\<not> (session_externally_managed t \<and> session_unusable t w)"
  shows "\<exists>t1 w3. send_message (always (Inr r)) m t w = discord_response r t1 w3"
proof -
  from ensure_session_ok[OF assms] obtain t1 w1 s where
    e: "ensure_session t w = (Inr (), t1, w1)" and s: "session t1 = Some s" by blast
  show ?thesis
    by (auto simp: send_message_unfold[OF e s] always_def)
qed

text \<open>
  Claim C4. When \<^verbatim>\<open>_ensure_session\<close> succeeds and the request gives a response,
  \<^verbatim>\<open>send_message\<close> returns \<^verbatim>\<open>True\<close> if and only if the status is 204. With any other status
  it returns \<^verbatim>\<open>False\<close>, and the last logging call is an error that carries the status and
  the body of the response (the body as \<^verbatim>\<open>await response.text()\<close> returns it).
\<close>

theorem discord_success_iff_204:
  assumes "\<not> (session_externally_managed t \<and> session_unusable t w)"
  shows "(fst (send_message (always (Inr r)) m t w) = Inr True \<longleftrightarrow> status r = 204)
       \<and> (status r \<noteq> 204 \<longrightarrow> fst (send_message (always (Inr r)) m t w) = Inr False)
       \<and> (status r \<noteq> 204 \<and> text_result r = Inr body \<longrightarrow>
            last (logged (snd (snd (send_message (always (Inr r)) m t w)))) =
              Log ERROR ''Failed to send message. Status: {}, Response: {}''
                [Num (status r), Str body])"
proof -
  from send_message_always[OF assms] obtain t1 w3 where
    u: "send_message (always (Inr r)) m t w = discord_response r t1 w3" by blast
  show ?thesis
    unfolding u
    using discord_response_true[of r t1 w3] discord_response_other_status[of r t1 w3]
      discord_response_body[of r body t1 w3]
    by (auto simp: logging_def)
qed

theorem discord_success_iff_204_witness:
  "fst (send_message
     (always (Inr \<lparr>status = 204, text_result = Inr [], json_result = Inr JNull\<rparr>))
     ''hi''
     \<lparr>valves = \<lparr>WEBHOOK_URL = ''https://discord.com/api/webhooks/1/a''\<rparr>,
      session = Some 0, session_externally_managed = True\<rparr>
     \<lparr>heap = [\<lparr>closed = False, close_calls = 0\<rparr>], requests = [], logged = []\<rparr>) = Inr True
   \<and> fst (send_message
     (always (Inr \<lparr>status = 400, text_result = Inr ''bad request'', json_result = Inr JNull\<rparr>))
     ''hi''
     \<lparr>valves = \<lparr>WEBHOOK_URL = ''https://discord.com/api/webhooks/1/a''\<rparr>,
      session = Some 0, session_externally_managed = True\<rparr>
     \<lparr>heap = [\<lparr>closed = False, close_calls = 0\<rparr>], requests = [], logged = []\<rparr>) = Inr False
   \<and> last (logged (snd (snd (send_message
     (always (Inr \<lparr>status = 400, text_result = Inr ''bad request'', json_result = Inr JNull\<rparr>))
     ''hi''
     \<lparr>valves = \<lparr>WEBHOOK_URL = ''https://discord.com/api/webhooks/1/a''\<rparr>,
      session = Some 0, session_externally_managed = True\<rparr>
     \<lparr>heap = [\<lparr>closed = False, close_calls = 0\<rparr>], requests = [], logged = []\<rparr>)))) =
       Log ERROR ''Failed to send message. Status: {}, Response: {}''
         [Num 400, Str ''bad request'']"
  using
    discord_success_iff_204 [of
      "\<lparr>valves = \<lparr>WEBHOOK_URL = ''https://discord.com/api/webhooks/1/a''\<rparr>,
        session = Some 0, session_externally_managed = True\<rparr>"
      "\<lparr>heap = [\<lparr>closed = False, close_calls = 0\<rparr>], requests = [], logged = []\<rparr>"
      "\<lparr>status = 204, text_result = Inr [], json_result = Inr JNull\<rparr>" "''hi''" "[]"]
    discord_success_iff_204 [of
      "\<lparr>valves = \<lparr>WEBHOOK_URL = ''https://discord.com/api/webhooks/1/a''\<rparr>,
        session = Some 0, session_externally_managed = True\<rparr>"
      "\<lparr>heap = [\<lparr>closed = False, close_calls = 0\<rparr>], requests = [], logged = []\<rparr>"
      "\<lparr>status = 400, text_result = Inr ''bad request'', json_result = Inr JNull\<rparr>" "''hi''"
      "''bad request''"]
  by (simp add: session_unusable_def)

lemma send_message_requests:
  assumes "\<not> (session_externally_managed t \<and> session_unusable t w)"
  shows "map snd (requests (snd (snd (send_message post m t w)))) =
         map snd (requests w) @
           [(WEBHOOK_URL (valves t),
             [(''content'', if length m > 2000 then take 2000 m else m)])]"
proof -
  from ensure_session_ok[OF assms] obtain t1 w1 s where
    e: "ensure_session t w = (Inr (), t1, w1)" and s: "session t1 = Some s"
    and v: "valves t1 = valves t" and q: "requests w1 = requests w" by blast
  let ?w3 = "(snd (discord_truncate m w1))\<lparr>requests := requests (snd (discord_truncate m w1)) @
               [(s, WEBHOOK_URL (valves t1), [(''content'', fst (discord_truncate m w1))])]\<rparr>"
  have w3: "map snd (requests ?w3) = map snd (requests w) @
           [(WEBHOOK_URL (valves t),
             [(''content'', if length m > 2000 then take 2000 m else m)])]"
    by (simp add: discord_truncate_fst discord_truncate_snd v q)
  show ?thesis
  proof (cases "post (WEBHOOK_URL (valves t1)) [(''content'', fst (discord_truncate m w1))]")
    case (Inl x)
    obtain b t' w' where h: "handle_exc x t1 ?w3 = (b, t', w')"
      by (cases "handle_exc x t1 ?w3") auto
    from handle_exc_result[OF h] have "requests w' = requests ?w3" by simp
    with Inl h w3 show ?thesis by (simp add: send_message_unfold[OF e s])
  next
    case (Inr r)
    obtain b t' w' where h: "discord_response r t1 ?w3 = (b, t', w')"
      by (cases "discord_response r t1 ?w3") auto
    from discord_response_state[OF h] have "requests w' = requests ?w3" by simp
    with Inr h w3 show ?thesis by (simp add: send_message_unfold[OF e s])
  qed
qed

lemma send_telegram_message_requests:
  assumes "\<not> (session_externally_managed t \<and> session_unusable t w)"
  shows "map snd (requests (snd (snd (send_telegram_message post m t w)))) =
         map snd (requests w) @
           [(telegram_url (valves t),
             [(''chat_id'', TELEGRAM_CHAT_ID (valves t)),
              (''text'', if length m > 4096 then take 4096 m else m)])]"
proof -
  from ensure_session_ok[OF assms] obtain t1 w1 s where
    e: "ensure_session t w = (Inr (), t1, w1)" and s: "session t1 = Some s"
    and v: "valves t1 = valves t" and q: "requests w1 = requests w" by blast
  let ?d = "[(''chat_id'', TELEGRAM_CHAT_ID (valves t1)), (''text'', fst (telegram_truncate m w1))]"
  let ?w3 = "(snd (telegram_truncate m w1))\<lparr>requests := requests (snd (telegram_truncate m w1)) @
               [(s, telegram_url (valves t1), ?d)]\<rparr>"
  have w3: "map snd (requests ?w3) = map snd (requests w) @
           [(telegram_url (valves t),
             [(''chat_id'', TELEGRAM_CHAT_ID (valves t)),
              (''text'', if length m > 4096 then take 4096 m else m)])]"
    by (simp add: telegram_truncate_fst telegram_truncate_snd v q)
  show ?thesis
  proof (cases "post (telegram_url (valves t1)) ?d")
    case (Inl x)
    obtain b t' w' where h: "handle_exc x t1 ?w3 = (b, t', w')"
      by (cases "handle_exc x t1 ?w3") auto
    from handle_exc_result[OF h] have "requests w' = requests ?w3" by simp
    with Inl h w3 show ?thesis by (simp add: send_telegram_message_unfold[OF e s])
  next
    case (Inr r)
    obtain b t' w' where h: "telegram_response r t1 ?w3 = (b, t', w')"
      by (cases "telegram_response r t1 ?w3") auto
    from telegram_response_state[OF h] have "requests w' = requests ?w3" by simp
    with Inr h w3 show ?thesis by (simp add: send_telegram_message_unfold[OF e s])
  qed
qed

text \<open>
  Claim C5. When \<^verbatim>\<open>_ensure_session\<close> succeeds, a send adds exactly one request, and the
  content of its payload is the first 2000 (Discord) or 4096 (Telegram) characters of the
  message when the message is longer than that, and the message itself otherwise. This
  holds whatever the transport then does.
\<close>

theorem payload_truncated_to_limit:
  assumes "\<not> (session_externally_managed t \<and> session_unusable t w)"
      and "\<not> (session_externally_managed t' \<and> session_unusable t' w)"
  shows "map snd (requests (snd (snd (send_message post m t w)))) =
           map snd (requests w) @
             [(WEBHOOK_URL (valves t),
               [(''content'', if length m > 2000 then take 2000 m else m)])]
       \<and> map snd (requests (snd (snd (send_telegram_message post m t' w)))) =
           map snd (requests w) @
             [(telegram_url (valves t'),
               [(''chat_id'', TELEGRAM_CHAT_ID (valves t')),
                (''text'', if length m > 4096 then take 4096 m else m)])]"
  using send_message_requests[OF assms(1)] send_telegram_message_requests[OF assms(2)]
  by simp

theorem payload_truncated_to_limit_witness:
  "map snd (requests (snd (snd (send_message
     (always (Inr \<lparr>status = 204, text_result = Inr [], json_result = Inr JNull\<rparr>))
     (replicate 4097 CHR ''a'')
     \<lparr>valves = \<lparr>WEBHOOK_URL = ''https://discord.com/api/webhooks/1/a''\<rparr>,
      session = Some 0, session_externally_managed = True\<rparr>
     \<lparr>heap = [\<lparr>closed = False, close_calls = 0\<rparr>], requests = [], logged = []\<rparr>)))) =
     [(''https://discord.com/api/webhooks/1/a'', [(''content'', replicate 2000 CHR ''a'')])]
   \<and> map snd (requests (snd (snd (send_telegram_message
     (always (Inr \<lparr>status = 204, text_result = Inr [], json_result = Inr JNull\<rparr>))
     (replicate 4097 CHR ''a'')
     \<lparr>valves = \<lparr>TELEGRAM_BOT_TOKEN = ''t'', TELEGRAM_CHAT_ID = ''42''\<rparr>,
      session = Some 0, session_externally_managed = True\<rparr>
     \<lparr>heap = [\<lparr>closed = False, close_calls = 0\<rparr>], requests = [], logged = []\<rparr>)))) =
     [(''https://api.telegram.org/bott/sendMessage'',
       [(''chat_id'', ''42''), (''text'', replicate 4096 CHR ''a'')])]
   \<and> map snd (requests (snd (snd (send_message
     (always (Inr \<lparr>status = 204, text_result = Inr [], json_result = Inr JNull\<rparr>))
     ''hi''
     \<lparr>valves = \<lparr>WEBHOOK_URL = ''https://discord.com/api/webhooks/1/a''\<rparr>,
      session = Some 0, session_externally_managed = True\<rparr>
     \<lparr>heap = [\<lparr>closed = False, close_calls = 0\<rparr>], requests = [], logged = []\<rparr>)))) =
     [(''https://discord.com/api/webhooks/1/a'', [(''content'', ''hi'')])]
   \<and> map snd (requests (snd (snd (send_telegram_message
     (always (Inr \<lparr>status = 204, text_result = Inr [], json_result = Inr JNull\<rparr>))
     ''hi''
     \<lparr>valves = \<lparr>TELEGRAM_BOT_TOKEN = ''t'', TELEGRAM_CHAT_ID = ''42''\<rparr>,
      session = Some 0, session_externally_managed = True\<rparr>
     \<lparr>heap = [\<lparr>closed = False, close_calls = 0\<rparr>], requests = [], logged = []\<rparr>)))) =
     [(''https://api.telegram.org/bott/sendMessage'', [(''chat_id'', ''42''), (''text'', ''hi'')])]"
  using
    payload_truncated_to_limit [of
      "\<lparr>valves = \<lparr>WEBHOOK_URL = ''https://discord.com/api/webhooks/1/a''\<rparr>,
        session = Some 0, session_externally_managed = True\<rparr>"
      "\<lparr>heap = [\<lparr>closed = False, close_calls = 0\<rparr>], requests = [], logged = []\<rparr>"
      "\<lparr>valves = \<lparr>TELEGRAM_BOT_TOKEN = ''t'', TELEGRAM_CHAT_ID = ''42''\<rparr>,
        session = Some 0, session_externally_managed = True\<rparr>"
      "always (Inr \<lparr>status = 204, text_result = Inr [], json_result = Inr JNull\<rparr>)"
      "replicate 4097 CHR ''a''"]
    payload_truncated_to_limit [of
      "\<lparr>valves = \<lparr>WEBHOOK_URL = ''https://discord.com/api/webhooks/1/a''\<rparr>,
        session = Some 0, session_externally_managed = True\<rparr>"
      "\<lparr>heap = [\<lparr>closed = False, close_calls = 0\<rparr>], requests = [], logged = []\<rparr>"
      "\<lparr>valves = \<lparr>TELEGRAM_BOT_TOKEN = ''t'', TELEGRAM_CHAT_ID = ''42''\<rparr>,
        session = Some 0, session_externally_managed = True\<rparr>"
      "always (Inr \<lparr>status = 204, text_result = Inr [], json_result = Inr JNull\<rparr>)"
      "''hi''"]
  by (simp add: session_unusable_def telegram_url_def)

text \<open>
  Claim C6. \<^verbatim>\<open>_ensure_session\<close> has three cases: with a session that exists and is open it
  changes nothing; with a session absent or closed and the instance internally managed it
  creates a fresh open session and keeps the instance internally managed; with a session
  absent or closed and the instance externally managed it raises and changes nothing (no
  session is created). It is idempotent: a second call right after the first gives the
  same result and the same state.
\<close>

theorem ensure_session_contract:
  "(\<not> session_unusable t w \<longrightarrow> ensure_session t w = (Inr (), t, w))
   \<and> (session_unusable t w \<and> \<not> session_externally_managed t \<longrightarrow>
        (case ensure_session t w of (r, t', w') \<Rightarrow>
           r = Inr () \<and> session t' = Some (length (heap w)) \<and> \<not> session_externally_managed t'
           \<and> valves t' = valves t
           \<and> heap w' = heap w @ [\<lparr>closed = False, close_calls = 0\<rparr>]
           \<and> requests w' = requests w
           \<and> \<not> session_unusable t' w'))
   \<and> (session_unusable t w \<and> session_externally_managed t \<longrightarrow>
        ensure_session t w =
          (Inl (RuntimeError ''External aiohttp session is closed or was not provided.''), t, w))
   \<and> (case ensure_session t w of (r, t', w') \<Rightarrow> ensure_session t' w' = (r, t', w'))"
  by (auto simp: ensure_session_def session_unusable_def ClientSession_def logging_def
      split: if_splits option.splits)

theorem ensure_session_contract_witness:
  "ensure_session
     \<lparr>valves = (), session = Some 0, session_externally_managed = True\<rparr>
     \<lparr>heap = [\<lparr>closed = False, close_calls = 0\<rparr>], requests = [], logged = []\<rparr>
   = (Inr (), \<lparr>valves = (), session = Some 0, session_externally_managed = True\<rparr>,
      \<lparr>heap = [\<lparr>closed = False, close_calls = 0\<rparr>], requests = [], logged = []\<rparr>)
   \<and> fst (snd (ensure_session
        \<lparr>valves = (), session = Some 0, session_externally_managed = False\<rparr>
        \<lparr>heap = [\<lparr>closed = True, close_calls = 1\<rparr>], requests = [], logged = []\<rparr>))
     = \<lparr>valves = (), session = Some 1, session_externally_managed = False\<rparr>
   \<and> heap (snd (snd (ensure_session
        \<lparr>valves = (), session = Some 0, session_externally_managed = False\<rparr>
        \<lparr>heap = [\<lparr>closed = True, close_calls = 1\<rparr>], requests = [], logged = []\<rparr>)))
     = [\<lparr>closed = True, close_calls = 1\<rparr>, \<lparr>closed = False, close_calls = 0\<rparr>]
   \<and> ensure_session
        \<lparr>valves = (), session = Some 0, session_externally_managed = True\<rparr>
        \<lparr>heap = [\<lparr>closed = True, close_calls = 1\<rparr>], requests = [], logged = []\<rparr>
     = (Inl (RuntimeError ''External aiohttp session is closed or was not provided.''),
        \<lparr>valves = (), session = Some 0, session_externally_managed = True\<rparr>,
        \<lparr>heap = [\<lparr>closed = True, close_calls = 1\<rparr>], requests = [], logged = []\<rparr>)"
  using
    ensure_session_contract [of
      "\<lparr>valves = (), session = Some 0, session_externally_managed = True\<rparr>"
      "\<lparr>heap = [\<lparr>closed = False, close_calls = 0\<rparr>], requests = [], logged = []\<rparr>"]
    ensure_session_contract [of
      "\<lparr>valves = (), session = Some 0, session_externally_managed = False\<rparr>"
      "\<lparr>heap = [\<lparr>closed = True, close_calls = 1\<rparr>], requests = [], logged = []\<rparr>"]
    ensure_session_contract [of
      "\<lparr>valves = (), session = Some 0, session_externally_managed = True\<rparr>"
      "\<lparr>heap = [\<lparr>closed = True, close_calls = 1\<rparr>], requests = [], logged = []\<rparr>"]
  by (simp add: session_unusable_def ensure_session_def ClientSession_def logging_def)

lemma close_owned_open:
  "\<not> session_externally_managed t \<Longrightarrow> session t = Some s \<Longrightarrow> \<not> closed (heap w ! s) \<Longrightarrow>
   close t w =
     (Inr (), t, logging (Log DEBUG ''Closed internal aiohttp session.'' []) (session_close s w))"
  by (simp add: close_def)

lemma close_noop:
  "session_externally_managed t \<or> session_unusable t w \<Longrightarrow> close t w = (Inr (), t, w)"
  by (auto simp: close_def session_unusable_def split: option.splits)

lemma session_close_at:
  "s < length (heap w) \<Longrightarrow>
   closed (heap (session_close s w) ! s)
   \<and> close_calls (heap (session_close s w) ! s) = Suc (close_calls (heap w ! s))"
  by (simp add: session_close_def)

lemma list_update_close_calls:
  "close_calls (xs[s := (xs ! s)\<lparr>closed := True, close_calls := Suc (close_calls (xs ! s))\<rparr>] ! i)
     \<le> Suc (close_calls (xs ! i))"
proof (cases "s < length xs")
  case True
  then show ?thesis by (cases "i = s") simp_all
next
  case False
  then have "xs[s := (xs ! s)\<lparr>closed := True, close_calls := Suc (close_calls (xs ! s))\<rparr>] = xs"
    by (simp add: list_update_beyond)
  then show ?thesis by simp
qed

lemma close_calls_bound:
  "close_calls (heap (snd (snd (close t w))) ! i) \<le> Suc (close_calls (heap w ! i))"
  by (simp add: close_def session_close_def logging_def list_update_close_calls
        split: option.splits)

lemma close_times_fst: "fst (close_times n t w) = Inr ()"
proof (induction n arbitrary: t w)
  case 0
  show ?case by simp
next
  case (Suc n)
  obtain r t' w' where c: "close t w = (r, t', w')" by (cases "close t w") auto
  with close_result[of t w] have "r = Inr ()" by simp
  with c Suc.IH[of t' w'] show ?case by simp
qed

lemma close_times_external:
  "session_externally_managed t \<Longrightarrow> close_times n t w = (Inr (), t, w)"
  by (induction n) (simp_all add: close_noop)

lemma discord_Tools_init_session:
  "discord_Tools_init env (Some s) w =
     (Inr \<lparr>valves = \<lparr>WEBHOOK_URL = environ_get env ''DISCORD_WEBHOOK_URL'' []\<rparr>,
           session = Some s, session_externally_managed = True\<rparr>, w)"
  by (simp add: discord_Tools_init_def discord_Valves_def)

lemma telegram_Tools_init_session:
  "telegram_Tools_init py_int env (Some s) w =
     (Inr \<lparr>valves = \<lparr>TELEGRAM_BOT_TOKEN = environ_get env ''TELEGRAM_BOT_TOKEN'' [],
                      TELEGRAM_CHAT_ID = environ_get env ''TELEGRAM_CHAT_ID'' []\<rparr>,
           session = Some s, session_externally_managed = True\<rparr>, w)"
  by (simp add: telegram_Tools_init_def telegram_Valves_def)

text \<open>
  Claim C7. \<^verbatim>\<open>close\<close> closes the session when the instance is internally managed and the
  session exists and is open; otherwise it changes nothing. It never raises. Calling it
  any number of times in a row (at least once) is the same as calling it once, so that the
  session's \<^verbatim>\<open>close()\<close> is called at most once; on an externally managed instance no
  number of calls changes anything. After creating an instance with a supplied session,
  a send and a \<^verbatim>\<open>close\<close>, the store of sessions is as it was: the supplied session is
  still open if it was open. This holds in both modules.
\<close>

theorem close_idempotent_respects_ownership:
  assumes "wf_ref t w"
  shows "(\<not> session_externally_managed t \<and> session t = Some s \<and> \<not> closed (heap w ! s) \<longrightarrow>
            close t w =
              (Inr (), t,
               logging (Log DEBUG ''Closed internal aiohttp session.'' []) (session_close s w))
            \<and> closed (heap (session_close s w) ! s)
            \<and> close_calls (heap (session_close s w) ! s) = Suc (close_calls (heap w ! s)))
       \<and> (session_externally_managed t \<or> session_unusable t w \<longrightarrow> close t w = (Inr (), t, w))
       \<and> fst (close_times n t w) = Inr ()
       \<and> close_times (Suc n) t w = close t w
       \<and> close_calls (heap (snd (snd (close_times (Suc n) t w))) ! i)
            \<le> Suc (close_calls (heap w ! i))
       \<and> (session_externally_managed t \<longrightarrow> close_times n t w = (Inr (), t, w))
       \<and> heap (snd (discord_run [Send m r, Release]
                    (projr (fst (discord_Tools_init env (Some s') w')),
                     snd (discord_Tools_init env (Some s') w')))) = heap w'
       \<and> heap (snd (telegram_run [Send m r, Release]
                    (projr (fst (telegram_Tools_init py_int env (Some s') w')),
                     snd (telegram_Tools_init py_int env (Some s') w')))) = heap w'"
proof -
  have a: "\<not> session_externally_managed t \<and> session t = Some s \<and> \<not> closed (heap w ! s) \<longrightarrow>
            close t w =
              (Inr (), t,
               logging (Log DEBUG ''Closed internal aiohttp session.'' []) (session_close s w))
            \<and> closed (heap (session_close s w) ! s)
            \<and> close_calls (heap (session_close s w) ! s) = Suc (close_calls (heap w ! s))"
    using assms close_owned_open[of t s w] session_close_at[of s w]
    by (auto simp: wf_ref_def)
  have b: "session_externally_managed t \<or> session_unusable t w \<longrightarrow> close t w = (Inr (), t, w)"
    using close_noop[of t w] by blast
  have c: "close_times (Suc n) t w = close t w" by (rule close_times_Suc[OF assms])
  have d: "close_calls (heap (snd (snd (close_times (Suc n) t w))) ! i)
            \<le> Suc (close_calls (heap w ! i))"
    unfolding c by (rule close_calls_bound)
  have e: "session_externally_managed t \<longrightarrow> close_times n t w = (Inr (), t, w)"
    using close_times_external[of t n w] by blast
  have f: "heap (snd (discord_run [Send m r, Release]
                    (projr (fst (discord_Tools_init env (Some s') w')),
                     snd (discord_Tools_init env (Some s') w')))) = heap w'"
    using discord_run_flag[of "[Send m r, Release]"
        "\<lparr>valves = \<lparr>WEBHOOK_URL = environ_get env ''DISCORD_WEBHOOK_URL'' []\<rparr>,
           session = Some s', session_externally_managed = True\<rparr>" w']
    by (simp add: discord_Tools_init_session)
  have g: "heap (snd (telegram_run [Send m r, Release]
                    (projr (fst (telegram_Tools_init py_int env (Some s') w')),
                     snd (telegram_Tools_init py_int env (Some s') w')))) = heap w'"
    using telegram_run_flag[of "[Send m r, Release]"
        "\<lparr>valves = \<lparr>TELEGRAM_BOT_TOKEN = environ_get env ''TELEGRAM_BOT_TOKEN'' [],
                      TELEGRAM_CHAT_ID = environ_get env ''TELEGRAM_CHAT_ID'' []\<rparr>,
           session = Some s', session_externally_managed = True\<rparr>" w']
    by (simp add: telegram_Tools_init_session)
  from a b c d e f g close_times_fst[of n t w] show ?thesis by blast
qed

theorem close_idempotent_respects_ownership_witness:
  "heap (snd (snd (close
      \<lparr>valves = (), session = Some 0, session_externally_managed = False\<rparr>
      \<lparr>heap = [\<lparr>closed = False, close_calls = 0\<rparr>], requests = [], logged = []\<rparr>)))
     = [\<lparr>closed = True, close_calls = 1\<rparr>]
   \<and> heap (snd (snd (close_times (Suc 2)
      \<lparr>valves = (), session = Some 0, session_externally_managed = False\<rparr>
      \<lparr>heap = [\<lparr>closed = False, close_calls = 0\<rparr>], requests = [], logged = []\<rparr>)))
     = [\<lparr>closed = True, close_calls = 1\<rparr>]
   \<and> close
      \<lparr>valves = (), session = Some 0, session_externally_managed = True\<rparr>
      \<lparr>heap = [\<lparr>closed = False, close_calls = 0\<rparr>], requests = [], logged = []\<rparr>
     = (Inr (), \<lparr>valves = (), session = Some 0, session_externally_managed = True\<rparr>,
        \<lparr>heap = [\<lparr>closed = False, close_calls = 0\<rparr>], requests = [], logged = []\<rparr>)"
  using
    close_idempotent_respects_ownership [of
      "\<lparr>valves = (), session = Some 0, session_externally_managed = False\<rparr>"
      "\<lparr>heap = [\<lparr>closed = False, close_calls = 0\<rparr>], requests = [], logged = []\<rparr>"
      0 2 0 "''hi''" "Inl (ClientError [])" "\<lambda>k. None" 0
      "\<lparr>heap = [\<lparr>closed = False, close_calls = 0\<rparr>], requests = [], logged = []\<rparr>"
      "\<lambda>v. None"]
    close_idempotent_respects_ownership [of
      "\<lparr>valves = (), session = Some 0, session_externally_managed = True\<rparr>"
      "\<lparr>heap = [\<lparr>closed = False, close_calls = 0\<rparr>], requests = [], logged = []\<rparr>"
      0 2 0 "''hi''" "Inl (ClientError [])" "\<lambda>k. None" 0
      "\<lparr>heap = [\<lparr>closed = False, close_calls = 0\<rparr>], requests = [], logged = []\<rparr>"
      "\<lambda>v. None"]
  by (simp add: wf_ref_def session_close_def logging_def)

subsection \<open>Configuration\<close>

text \<open>
  When a call of \<^verbatim>\<open>Valves\<close> supplies the fields, the validators run and accept exactly the
  values that the specification asks for.
\<close>

lemma telegram_Valves_supplied:
  "(\<exists>v. telegram_Valves py_int env (Some tok) (Some chat) = Inr v) \<longleftrightarrow>
     tok \<noteq> [] \<and> chat \<noteq> [] \<and> py_int chat \<noteq> None"
  by (auto simp: telegram_Valves_def validate_bot_token_def validate_chat_id_def
      split: option.splits)

lemma discord_Valves_supplied:
  "(\<exists>v. fst (discord_Valves env (Some url) w) = Inr v) \<longleftrightarrow> url \<noteq> []"
  by (auto simp: discord_Valves_def validate_webhook_url_def)

text \<open>
  \<^verbatim>\<open>__init__\<close> calls \<^verbatim>\<open>self.Valves()\<close> and supplies no field, so no validator runs: the
  instance is created with whatever the environment held, for every environment.
\<close>

lemma telegram_Tools_init_defaults:
  "telegram_Tools_init py_int env sess w =
     (Inr \<lparr>valves = \<lparr>TELEGRAM_BOT_TOKEN = environ_get env ''TELEGRAM_BOT_TOKEN'' [],
                      TELEGRAM_CHAT_ID = environ_get env ''TELEGRAM_CHAT_ID'' []\<rparr>,
           session = sess, session_externally_managed = (sess \<noteq> None)\<rparr>, w)"
  by (cases sess) (simp_all add: telegram_Tools_init_def telegram_Valves_def)

lemma discord_Tools_init_defaults:
  "discord_Tools_init env sess w =
     (Inr \<lparr>valves = \<lparr>WEBHOOK_URL = environ_get env ''DISCORD_WEBHOOK_URL'' []\<rparr>,
           session = sess, session_externally_managed = (sess \<noteq> None)\<rparr>, w)"
  by (cases sess) (simp_all add: discord_Tools_init_def discord_Valves_def)

text \<open>
  Claim C8 says that creating the Telegram instance succeeds if and only if the bot token
  is not empty and the chat id is not empty and converts to an integer. The code at an
  environment that sets neither variable: \<^verbatim>\<open>Tools()\<close> returns an instance whose token and
  chat id are empty, and raises nothing.
\<close>

theorem telegram_Tools_init_empty_environ:
  "telegram_Tools_init py_int Map.empty None w =
     (Inr \<lparr>valves = \<lparr>TELEGRAM_BOT_TOKEN = [], TELEGRAM_CHAT_ID = []\<rparr>,
           session = None, session_externally_managed = False\<rparr>, w)"
  by (simp add: telegram_Tools_init_def telegram_Valves_def environ_get_def)

text \<open>
  Claim C9 says that creating the Discord instance fails if and only if the webhook URL is
  empty. The code at an environment that does not set the variable: \<^verbatim>\<open>Tools()\<close> returns an
  instance whose URL is empty, raises nothing and logs nothing.
\<close>

theorem discord_Tools_init_empty_environ:
  "discord_Tools_init Map.empty None w =
     (Inr \<lparr>valves = \<lparr>WEBHOOK_URL = []\<rparr>, session = None, session_externally_managed = False\<rparr>,
      w)"
  by (simp add: discord_Tools_init_def discord_Valves_def environ_get_def)

text \<open>
  Claim C10. The flag \<^verbatim>\<open>_session_externally_managed\<close> set by \<^verbatim>\<open>__init__\<close> is the same after
  any sequence of \<^verbatim>\<open>_ensure_session\<close>, sends, \<^verbatim>\<open>close\<close>, \<^verbatim>\<open>__aenter__\<close> and \<^verbatim>\<open>__aexit__\<close>, in
  both modules: an internally managed instance stays internally managed, and an
  externally managed instance stays so, keeps the session it was given, and neither
  creates nor closes a session.
\<close>

theorem ownership_flag_invariant:
  "session_externally_managed (fst (discord_run ops (t, w))) = session_externally_managed t
   \<and> (session_externally_managed t \<longrightarrow>
        session (fst (discord_run ops (t, w))) = session t
        \<and> heap (snd (discord_run ops (t, w))) = heap w)
   \<and> session_externally_managed (fst (telegram_run ops (t', w))) = session_externally_managed t'
   \<and> (session_externally_managed t' \<longrightarrow>
        session (fst (telegram_run ops (t', w))) = session t'
        \<and> heap (snd (telegram_run ops (t', w))) = heap w)"
  using discord_run_flag[of ops t w] telegram_run_flag[of ops t' w] by blast

theorem ownership_flag_invariant_witness:
  "session_externally_managed (fst (discord_run
      [Enter, Send ''hi'' (Inr \<lparr>status = 204, text_result = Inr [], json_result = Inr JNull\<rparr>),
       Release, Exit, Ensure]
      (\<lparr>valves = \<lparr>WEBHOOK_URL = ''https://discord.com/api/webhooks/1/a''\<rparr>,
        session = Some 0, session_externally_managed = True\<rparr>,
       \<lparr>heap = [\<lparr>closed = False, close_calls = 0\<rparr>], requests = [], logged = []\<rparr>)))
   \<and> session (fst (discord_run
      [Enter, Send ''hi'' (Inr \<lparr>status = 204, text_result = Inr [], json_result = Inr JNull\<rparr>),
       Release, Exit, Ensure]
      (\<lparr>valves = \<lparr>WEBHOOK_URL = ''https://discord.com/api/webhooks/1/a''\<rparr>,
        session = Some 0, session_externally_managed = True\<rparr>,
       \<lparr>heap = [\<lparr>closed = False, close_calls = 0\<rparr>], requests = [], logged = []\<rparr>))) = Some 0
   \<and> heap (snd (discord_run
      [Enter, Send ''hi'' (Inr \<lparr>status = 204, text_result = Inr [], json_result = Inr JNull\<rparr>),
       Release, Exit, Ensure]
      (\<lparr>valves = \<lparr>WEBHOOK_URL = ''https://discord.com/api/webhooks/1/a''\<rparr>,
        session = Some 0, session_externally_managed = True\<rparr>,
       \<lparr>heap = [\<lparr>closed = False, close_calls = 0\<rparr>], requests = [], logged = []\<rparr>)))
     = [\<lparr>closed = False, close_calls = 0\<rparr>]
   \<and> \<not> session_externally_managed (fst (telegram_run
      [Enter, Send ''hi'' (Inl (ClientError ''connection reset'')), Release, Exit, Ensure]
      (\<lparr>valves = \<lparr>TELEGRAM_BOT_TOKEN = ''t'', TELEGRAM_CHAT_ID = ''42''\<rparr>,
        session = None, session_externally_managed = False\<rparr>,
       \<lparr>heap = [\<lparr>closed = False, close_calls = 0\<rparr>], requests = [], logged = []\<rparr>)))"
  using ownership_flag_invariant [of
      "[Enter, Send ''hi'' (Inr \<lparr>status = 204, text_result = Inr [], json_result = Inr JNull\<rparr>),
        Release, Exit, Ensure]"
      "\<lparr>valves = \<lparr>WEBHOOK_URL = ''https://discord.com/api/webhooks/1/a''\<rparr>,
        session = Some 0, session_externally_managed = True\<rparr>"
      "\<lparr>heap = [\<lparr>closed = False, close_calls = 0\<rparr>], requests = [], logged = []\<rparr>"
      "\<lparr>valves = \<lparr>TELEGRAM_BOT_TOKEN = ''t'', TELEGRAM_CHAT_ID = ''42''\<rparr>,
        session = None, session_externally_managed = False\<rparr>"]
    ownership_flag_invariant [of
      "[Enter, Send ''hi'' (Inl (ClientError ''connection reset'')), Release, Exit, Ensure]"
      "\<lparr>valves = \<lparr>WEBHOOK_URL = ''https://discord.com/api/webhooks/1/a''\<rparr>,
        session = Some 0, session_externally_managed = True\<rparr>"
      "\<lparr>heap = [\<lparr>closed = False, close_calls = 0\<rparr>], requests = [], logged = []\<rparr>"
      "\<lparr>valves = \<lparr>TELEGRAM_BOT_TOKEN = ''t'', TELEGRAM_CHAT_ID = ''42''\<rparr>,
        session = None, session_externally_managed = False\<rparr>"]
  by simp

end
